theory Spec2Isabelle
  imports Main "HOL-Library.Sublist"
begin

section \<open>Python values: exceptions, awaited calls, traces\<close>

text \<open>
  The program is \<^verbatim>\<open>src/main.py\<close>: a Playwright script that logs in, walks to a product
  table, scrolls until the table is loaded, parses every row and writes the rows to a file.
  Every awaited call on the browser is answered by the environment; an answer is either a
  value or an exception.  The functions of the script are embedded as functions from the
  answers of the environment to the result of the function (a value or the exception
  that leaves it) together with the list of calls it has issued, in order.
  Texts are ASCII; progress messages printed on the way are left out.
\<close>

datatype stage = Login | Navigation | Extraction | Saving

datatype py_exc =
    PlaywrightTimeoutError
  | PlaywrightError
  | ValueError
  | IndexError
  | AttributeError
  | UnboundLocalError
  | KeyError
  | OSError
  | JSONDecodeError
  | RuntimeError_timeout stage
  | RuntimeError_wrapping stage py_exc

datatype 'a outcome = Done 'a | Raises py_exc

subsection \<open>\<^verbatim>\<open>str.strip\<close>, \<^verbatim>\<open>str.split\<close>, \<^verbatim>\<open>int\<close>\<close>

definition is_space :: "char \<Rightarrow> bool" where
  "is_space c \<longleftrightarrow> (let n = (of_char c :: nat) in (9 \<le> n \<and> n \<le> 13) \<or> (28 \<le> n \<and> n \<le> 32))"

definition py_strip :: "string \<Rightarrow> string" where
  "py_strip s = rev (dropWhile is_space (rev (dropWhile is_space s)))"

text \<open>
  \<^verbatim>\<open>s.split(sep)\<close> for a non-empty separator: the text is cut at every occurrence of
  the separator, found from the left and not overlapping.  Every separator of the script
  is a non-empty literal.
\<close>

function py_split_from :: "string \<Rightarrow> string \<Rightarrow> string \<Rightarrow> string list" where
  "py_split_from sep acc [] = [rev acc]"
| "py_split_from sep acc (c # cs) =
     (if sep \<noteq> [] \<and> prefix sep (c # cs)
      then rev acc # py_split_from sep [] (drop (length sep) (c # cs))
      else py_split_from sep (c # acc) cs)"
  by pat_completeness auto
termination
  by (relation "measure (\<lambda>(sep, acc, s). length s)") auto

definition py_split :: "string \<Rightarrow> string \<Rightarrow> string list" where
  "py_split sep s = py_split_from sep [] s"

definition is_digit :: "char \<Rightarrow> bool" where
  "is_digit c \<longleftrightarrow> (let n = (of_char c :: nat) in 48 \<le> n \<and> n \<le> 57)"

definition digit_val :: "char \<Rightarrow> int" where
  "digit_val c = int (of_char c) - 48"

text \<open>Decimal digits, where single underscores may stand between two digits.\<close>

fun py_digits :: "int \<Rightarrow> string \<Rightarrow> int option" where
  "py_digits acc [] = Some acc"
| "py_digits acc (c # cs) =
     (if is_digit c then py_digits (10 * acc + digit_val c) cs
      else if c = CHR ''_'' then
        (case cs of
           [] \<Rightarrow> None
         | d # _ \<Rightarrow> if is_digit d then py_digits acc cs else None)
      else None)"

definition py_int :: "string \<Rightarrow> py_exc + int" where
  "py_int s =
     (let t = py_strip s;
          neg = (case t of [] \<Rightarrow> False | c # _ \<Rightarrow> c = CHR ''-'');
          body = (case t of [] \<Rightarrow> [] | c # r \<Rightarrow> if c = CHR ''-'' \<or> c = CHR ''+'' then r else t)
      in case body of
           [] \<Rightarrow> Inl ValueError
         | d # _ \<Rightarrow>
             if is_digit d then
               (case py_digits 0 body of
                  None \<Rightarrow> Inl ValueError
                | Some n \<Rightarrow> Inr (if neg then - n else n))
             else Inl ValueError)"

text \<open>\<^verbatim>\<open>xs[1]\<close> on a list: IndexError when the list has fewer than two elements.\<close>

definition second :: "'a list \<Rightarrow> py_exc + 'a" where
  "second xs = (case xs of _ # y # _ \<Rightarrow> Inr y | _ \<Rightarrow> Inl IndexError)"

text \<open>
  Line 115:
  \<^verbatim>\<open>int(total_table_count_text.split("of")[1].split("products")[0].strip())\<close>.
  The first element of a split always exists.
\<close>

definition parse_total :: "string \<Rightarrow> py_exc + int" where
  "parse_total text =
     (case second (py_split ''of'' text) of
        Inl e \<Rightarrow> Inl e
      | Inr rest \<Rightarrow> py_int (py_strip (hd (py_split ''products'' rest))))"

section \<open>The page, as the script sees it\<close>

record product =
  Product_Name :: string
  ID :: string
  Shade :: string
  Details :: string
  Guarantee :: string

record cookie =
  cookie_name :: string
  cookie_value :: string
  cookie_domain :: string

text \<open>
  The document of the session file: the text that \<^verbatim>\<open>JSON.stringify(sessionStorage)\<close>
  returned, and the cookies of the storage state.
\<close>

record session_data =
  session_storage :: string
  cookies :: "cookie list"

datatype action =
    Start_playwright | Launch | New_context | New_page | Wait_load_state
  | Session_file_exists | Read_session_file | Add_cookies "cookie list" | Add_init_script string
  | Goto | Sign_in_visible | Fill_email string | Fill_password string | Click_submit
  | Wait_sign_out
  | Nav_wait nat | Nav_click nat
  | Wait_inventory | Read_summary | Read_rows | Hover | Wheel | Wait_growth int
  | Read_fragments | Read_title | Read_fragment nat
  | Open_output | Dump_output "product list"
  | Storage_state | Eval_session_storage | Open_session_file | Dump_session session_data
  | Log_main py_exc | Close_browser | Stop_playwright

text \<open>A growth trigger is the hover, the scroll or the wait for more rows.\<close>

fun is_growth_trigger :: "action \<Rightarrow> bool" where
  "is_growth_trigger Hover = True"
| "is_growth_trigger Wheel = True"
| "is_growth_trigger (Wait_growth n) = True"
| "is_growth_trigger a = False"

definition growth_triggers :: "action list \<Rightarrow> nat" where
  "growth_triggers tr = length (filter is_growth_trigger tr)"

type_synonym 'a prog = "action list \<Rightarrow> (py_exc + 'a) \<times> action list"

definition ret :: "'a \<Rightarrow> 'a prog" where
  "ret v tr = (Inr v, tr)"

definition raise :: "py_exc \<Rightarrow> 'a prog" where
  "raise e tr = (Inl e, tr)"

definition lift :: "py_exc + 'a \<Rightarrow> 'a prog" where
  "lift r tr = (r, tr)"

definition await :: "action \<Rightarrow> 'a outcome \<Rightarrow> 'a prog" where
  "await a r tr = (case r of Done v \<Rightarrow> (Inr v, tr @ [a]) | Raises e \<Rightarrow> (Inl e, tr @ [a]))"

definition then_do :: "'a prog \<Rightarrow> ('a \<Rightarrow> 'b prog) \<Rightarrow> 'b prog" where
  "then_do m f tr = (case m tr of (Inl e, tr') \<Rightarrow> (Inl e, tr') | (Inr v, tr') \<Rightarrow> f v tr')"

text \<open>
  The handlers at the end of \<^verbatim>\<open>login_if_needed\<close>, \<^verbatim>\<open>navigate_to_product_table\<close> and
  \<^verbatim>\<open>extract_products\<close>: a Playwright timeout and any other exception are raised again
  as a RuntimeError.
\<close>

definition reraise_as :: "stage \<Rightarrow> py_exc + 'a \<Rightarrow> py_exc + 'a" where
  "reraise_as st r =
     (case r of
        Inr v \<Rightarrow> Inr v
      | Inl e \<Rightarrow> if e = PlaywrightTimeoutError then Inl (RuntimeError_timeout st)
                else Inl (RuntimeError_wrapping st e))"

text \<open>
  A row of the table: the answer to hovering it, the labeled fragments
  \<^verbatim>\<open>div.p-3>div>div\<close> with the answer of each to \<^verbatim>\<open>text_content()\<close>, and the answer
  of the title \<^verbatim>\<open>div.h-12\<close> to \<^verbatim>\<open>text_content()\<close>.
\<close>

record item =
  hover :: "unit outcome"
  fragments :: "string option outcome list outcome"
  title :: "string option outcome"

text \<open>
  The page during \<^verbatim>\<open>extract_products\<close>.  \<open>rows_read k\<close>, \<open>wheel k\<close> and
  \<open>growth_wait k\<close> are the answers in the iteration \<open>k\<close> of the loop (from 0).
\<close>

record page =
  inventory_marker :: "unit outcome"
  summary :: "string option outcome"
  rows_read :: "nat \<Rightarrow> item list outcome"
  wheel :: "nat \<Rightarrow> unit outcome"
  growth_wait :: "nat \<Rightarrow> unit outcome"

section \<open>\<^verbatim>\<open>extract_products\<close>\<close>

definition summary_total :: "string option \<Rightarrow> py_exc + int" where
  "summary_total t = (case t of None \<Rightarrow> Inl AttributeError | Some s \<Rightarrow> parse_total s)"

text \<open>Lines 129 to 134; \<^verbatim>\<open>rows[-1]\<close> is an IndexError on the empty list.\<close>

definition trigger_growth :: "page \<Rightarrow> nat \<Rightarrow> item list \<Rightarrow> unit prog" where
  "trigger_growth pg k rs =
     (case rs of
        [] \<Rightarrow> raise IndexError
      | _ # _ \<Rightarrow>
          then_do (await Hover (hover (last rs))) (\<lambda>_.
          then_do (await Wheel (wheel pg k)) (\<lambda>_.
          await (Wait_growth (int (length rs))) (growth_wait pg k))))"

text \<open>
  The loop of lines 119 to 134.  Its state is the variables \<open>prev_count\<close>, \<open>count\<close>
  and \<open>rows\<close>, where \<open>rows\<close> is \<open>None\<close> as long as nothing was assigned to it.
  Nothing bounds the number of iterations, so the loop may not return.
\<close>

partial_function (option) collect_loop ::
  "page \<Rightarrow> int \<Rightarrow> nat \<Rightarrow> int \<Rightarrow> int \<Rightarrow> item list option \<Rightarrow> action list
     \<Rightarrow> ((py_exc + item list option) \<times> action list) option" where
  "collect_loop pg total_count k prev_count count rows tr =
     (if count < total_count then
        (case rows_read pg k of
           Raises e \<Rightarrow> Some (Inl e, tr @ [Read_rows])
         | Done rs \<Rightarrow>
             if int (length rs) = prev_count then Some (Inr (Some rs), tr @ [Read_rows])
             else if int (length rs) < total_count then
               (case trigger_growth pg k rs (tr @ [Read_rows]) of
                  (Inl e, tr') \<Rightarrow> Some (Inl e, tr')
                | (Inr _, tr') \<Rightarrow>
                    collect_loop pg total_count (Suc k) (int (length rs)) (int (length rs))
                      (Some rs) tr')
             else collect_loop pg total_count (Suc k) (int (length rs)) (int (length rs))
                    (Some rs) (tr @ [Read_rows]))
      else Some (Inr rows, tr))"

declare collect_loop.simps [code]

text \<open>Lines 140 to 143: \<^verbatim>\<open>text.split(sep)[1].strip()\<close>.\<close>

definition label_value :: "string \<Rightarrow> string option \<Rightarrow> py_exc + string" where
  "label_value sep t =
     (case t of
        None \<Rightarrow> Inl AttributeError
      | Some s \<Rightarrow> (case second (py_split sep s) of Inl e \<Rightarrow> Inl e | Inr v \<Rightarrow> Inr (py_strip v)))"

definition field_at :: "string option outcome list \<Rightarrow> nat \<Rightarrow> string \<Rightarrow> string prog" where
  "field_at inner_elements i sep =
     (if i < length inner_elements
      then then_do (await (Read_fragment i) (inner_elements ! i)) (\<lambda>t. lift (label_value sep t))
      else ret [])"

definition title_value :: "string option \<Rightarrow> py_exc + string" where
  "title_value t = (case t of None \<Rightarrow> Inl AttributeError | Some s \<Rightarrow> Inr (py_strip s))"

text \<open>The body of the loop of lines 136 to 151, for one row.\<close>

definition parse_item :: "item \<Rightarrow> product prog" where
  "parse_item it =
     then_do (await Read_fragments (fragments it)) (\<lambda>inner_elements.
     then_do (await Read_title (title it)) (\<lambda>t.
     then_do (lift (title_value t)) (\<lambda>name.
     then_do (field_at inner_elements 0 '':'') (\<lambda>id_text.
     then_do (field_at inner_elements 1 ''Shade'') (\<lambda>shade_text.
     then_do (field_at inner_elements 2 ''Details'') (\<lambda>details_text.
     then_do (field_at inner_elements 3 ''Guarantee'') (\<lambda>guarantee_text.
     ret \<lparr>Product_Name = name, ID = id_text, Shade = shade_text,
          Details = details_text, Guarantee = guarantee_text\<rparr>)))))))"

fun parse_rows :: "item list \<Rightarrow> product list \<Rightarrow> product list prog" where
  "parse_rows [] all_products = ret all_products"
| "parse_rows (it # its) all_products =
     then_do (parse_item it) (\<lambda>p. parse_rows its (all_products @ [p]))"

text \<open>The statements inside \<^verbatim>\<open>try\<close>, lines 111 to 154.\<close>

definition read_expected_total :: "page \<Rightarrow> int prog" where
  "read_expected_total pg =
     then_do (await Wait_inventory (inventory_marker pg)) (\<lambda>_.
     then_do (await Read_summary (summary pg)) (\<lambda>t. lift (summary_total t)))"

definition extract_body ::
  "page \<Rightarrow> action list \<Rightarrow> ((py_exc + product list) \<times> action list) option" where
  "extract_body pg tr =
     (case read_expected_total pg tr of
        (Inl e, tr1) \<Rightarrow> Some (Inl e, tr1)
      | (Inr total_count, tr1) \<Rightarrow>
          (case collect_loop pg total_count 0 (- 1) 0 None tr1 of
             None \<Rightarrow> None
           | Some (Inl e, tr2) \<Rightarrow> Some (Inl e, tr2)
           | Some (Inr None, tr2) \<Rightarrow> Some (Inl UnboundLocalError, tr2)
           | Some (Inr (Some rows), tr2) \<Rightarrow> Some (parse_rows rows [] tr2)))"

definition extract_products ::
  "page \<Rightarrow> action list \<Rightarrow> ((py_exc + product list) \<times> action list) option" where
  "extract_products pg tr =
     map_option (\<lambda>(r, tr'). (reraise_as Extraction r, tr')) (extract_body pg tr)"

section \<open>Login, navigation, session file, output file\<close>

definition guarded :: "stage \<Rightarrow> 'a prog \<Rightarrow> 'a prog" where
  "guarded st m tr = (case m tr of (r, tr') \<Rightarrow> (reraise_as st r, tr'))"

record login_page =
  goto :: "unit outcome"
  sign_in_visible :: "bool outcome"
  fill_email :: "unit outcome"
  fill_password :: "unit outcome"
  click_submit :: "unit outcome"
  wait_sign_out :: "unit outcome"

text \<open>
  \<^verbatim>\<open>login_if_needed\<close>, lines 60 to 82.  \<open>user\<close> and \<open>pass\<close> are the module
  variables \<^verbatim>\<open>USERNAME\<close> and \<^verbatim>\<open>PASSWORD\<close>: \<open>None\<close> when the environment variable
  is not set.  The test of line 62 is outside the \<^verbatim>\<open>try\<close>.
\<close>

definition login_if_needed :: "string option \<Rightarrow> string option \<Rightarrow> login_page \<Rightarrow> unit prog" where
  "login_if_needed user pass lp =
     (case (user, pass) of
        (Some u, Some p) \<Rightarrow>
          if u = [] \<or> p = [] then raise ValueError
          else guarded Login
            (then_do (await Goto (goto lp)) (\<lambda>_.
             then_do (await Sign_in_visible (sign_in_visible lp)) (\<lambda>visible.
             if visible then
               then_do (await (Fill_email u) (fill_email lp)) (\<lambda>_.
               then_do (await (Fill_password p) (fill_password lp)) (\<lambda>_.
               then_do (await Click_submit (click_submit lp)) (\<lambda>_.
               await Wait_sign_out (wait_sign_out lp))))
             else ret ())))
      | _ \<Rightarrow> raise ValueError)"

text \<open>
  \<^verbatim>\<open>navigate_to_product_table\<close>, lines 85 to 104: a wait, five clicks, a wait.
\<close>

definition navigate_to_product_table ::
  "(nat \<Rightarrow> unit outcome) \<Rightarrow> (nat \<Rightarrow> unit outcome) \<Rightarrow> unit prog" where
  "navigate_to_product_table waits clicks =
     guarded Navigation
       (then_do (await (Nav_wait 0) (waits 0)) (\<lambda>_.
        then_do (await (Nav_click 0) (clicks 0)) (\<lambda>_.
        then_do (await (Nav_click 1) (clicks 1)) (\<lambda>_.
        then_do (await (Nav_click 2) (clicks 2)) (\<lambda>_.
        then_do (await (Nav_click 3) (clicks 3)) (\<lambda>_.
        then_do (await (Nav_click 4) (clicks 4)) (\<lambda>_.
        await (Nav_wait 1) (waits 1))))))))"

text \<open>
  The session file: absent; present but not readable as a JSON document (reading raises);
  or a document, of which the script reads \<^verbatim>\<open>["storage_state"]["cookies"]\<close> and
  \<^verbatim>\<open>["session_storage"]\<close>, each \<open>None\<close> when the key is missing.
\<close>

datatype session_file =
    No_file
  | Unreadable py_exc
  | Document "cookie list option" "string option"

text \<open>
  The browser context, as far as \<^verbatim>\<open>load_session\<close> changes it: its cookies, and the
  init scripts added to it.  The init script of lines 46 to 53 is a fixed text around the
  value of \<^verbatim>\<open>session_storage\<close>; the context keeps that value.
\<close>

record browser_context =
  cookie_jar :: "cookie list"
  init_scripts :: "string list"

record session_env =
  add_cookies :: "unit outcome"
  add_init_script :: "unit outcome"
  storage_state :: "cookie list outcome"
  eval_session_storage :: "string outcome"
  open_session_file :: "unit outcome"
  dump_session :: "unit outcome"

text \<open>
  \<^verbatim>\<open>load_session\<close>, lines 32 to 57.  Every exception is caught at line 56, so the
  function always returns; what was done to the context before the exception stays done.
\<close>

definition load_session :: "session_env \<Rightarrow> session_file \<Rightarrow> browser_context \<Rightarrow> browser_context prog" where
  "load_session env file ctx tr =
     (case file of
        No_file \<Rightarrow> (Inr ctx, tr @ [Session_file_exists])
      | Unreadable e \<Rightarrow> (Inr ctx, tr @ [Session_file_exists, Read_session_file])
      | Document None st \<Rightarrow> (Inr ctx, tr @ [Session_file_exists, Read_session_file])
      | Document (Some cs) st \<Rightarrow>
          (case add_cookies env of
             Raises e \<Rightarrow> (Inr ctx, tr @ [Session_file_exists, Read_session_file, Add_cookies cs])
           | Done _ \<Rightarrow>
               (case st of
                  None \<Rightarrow>
                    (Inr (ctx\<lparr>cookie_jar := cookie_jar ctx @ cs\<rparr>),
                     tr @ [Session_file_exists, Read_session_file, Add_cookies cs])
                | Some text \<Rightarrow>
                    (case add_init_script env of
                       Raises e \<Rightarrow>
                         (Inr (ctx\<lparr>cookie_jar := cookie_jar ctx @ cs\<rparr>),
                          tr @ [Session_file_exists, Read_session_file, Add_cookies cs,
                                Add_init_script text])
                     | Done _ \<Rightarrow>
                         (Inr (ctx\<lparr>cookie_jar := cookie_jar ctx @ cs,
                                   init_scripts := init_scripts ctx @ [text]\<rparr>),
                          tr @ [Session_file_exists, Read_session_file, Add_cookies cs,
                                Add_init_script text])))))"

text \<open>
  \<^verbatim>\<open>save_session\<close>, lines 17 to 30; the result is the session file afterwards.
  Every exception is caught at line 29.  Opening the file for writing empties it, so a
  dump that raises leaves a file that is not a JSON document.
\<close>

definition save_session :: "session_env \<Rightarrow> session_file \<Rightarrow> session_file prog" where
  "save_session env file tr =
     (case storage_state env of
        Raises e \<Rightarrow> (Inr file, tr @ [Storage_state])
      | Done cs \<Rightarrow>
          (case eval_session_storage env of
             Raises e \<Rightarrow> (Inr file, tr @ [Storage_state, Eval_session_storage])
           | Done text \<Rightarrow>
               (case open_session_file env of
                  Raises e \<Rightarrow>
                    (Inr file, tr @ [Storage_state, Eval_session_storage, Open_session_file])
                | Done _ \<Rightarrow>
                    (case dump_session env of
                       Raises e \<Rightarrow>
                         (Inr (Unreadable JSONDecodeError),
                          tr @ [Storage_state, Eval_session_storage, Open_session_file,
                                Dump_session \<lparr>session_storage = text, cookies = cs\<rparr>])
                     | Done _ \<Rightarrow>
                         (Inr (Document (Some cs) (Some text)),
                          tr @ [Storage_state, Eval_session_storage, Open_session_file,
                                Dump_session \<lparr>session_storage = text, cookies = cs\<rparr>])))))"

text \<open>\<^verbatim>\<open>save_to_json\<close>, lines 163 to 171.\<close>

definition save_to_json :: "unit outcome \<Rightarrow> unit outcome \<Rightarrow> product list \<Rightarrow> unit prog" where
  "save_to_json opening dumping data tr =
     (case then_do (await Open_output opening) (\<lambda>_. await (Dump_output data) dumping) tr of
        (Inl e, tr') \<Rightarrow> (Inl (RuntimeError_wrapping Saving e), tr')
      | (Inr v, tr') \<Rightarrow> (Inr v, tr'))"

section \<open>\<^verbatim>\<open>main\<close>\<close>

record world =
  username :: "string option"
  password :: "string option"
  start_playwright :: "unit outcome"
  launch :: "unit outcome"
  new_context :: "unit outcome"
  new_page :: "unit outcome"
  load_state :: "unit outcome"
  close_browser :: "unit outcome"
  stored_session :: session_file
  session_io :: session_env
  entry_page :: login_page
  nav_waits :: "nat \<Rightarrow> unit outcome"
  nav_clicks :: "nat \<Rightarrow> unit outcome"
  table :: page
  open_output :: "unit outcome"
  dump_output :: "unit outcome"

text \<open>
  Lines 179 to 188: from the new context to the product table.  Line 184 only sets the
  default timeout of the page: it issues no call to the browser and is left out.
\<close>

definition reach_table :: "world \<Rightarrow> unit prog" where
  "reach_table w =
     then_do (await New_context (new_context w)) (\<lambda>_.
     then_do (load_session (session_io w) (stored_session w)
                \<lparr>cookie_jar = [], init_scripts = []\<rparr>) (\<lambda>_.
     then_do (await New_page (new_page w)) (\<lambda>_.
     then_do (await Wait_load_state (load_state w)) (\<lambda>_.
     then_do (login_if_needed (username w) (password w) (entry_page w)) (\<lambda>_.
     navigate_to_product_table (nav_waits w) (nav_clicks w))))))"

text \<open>Lines 179 to 189: the statements of the \<^verbatim>\<open>try\<close> up to the extraction.\<close>

definition collect_products ::
  "world \<Rightarrow> action list \<Rightarrow> ((py_exc + product list) \<times> action list) option" where
  "collect_products w tr =
     (case reach_table w tr of
        (Inl e, tr1) \<Rightarrow> Some (Inl e, tr1)
      | (Inr _, tr1) \<Rightarrow> extract_products (table w) tr1)"

text \<open>Lines 191 and 192.\<close>

definition write_results :: "world \<Rightarrow> product list \<Rightarrow> unit prog" where
  "write_results w products =
     then_do (save_to_json (open_output w) (dump_output w) products) (\<lambda>_.
     then_do (save_session (session_io w) (stored_session w)) (\<lambda>_. ret ()))"

text \<open>
  \<^verbatim>\<open>main\<close>, lines 174 to 197.  The launch is inside the \<^verbatim>\<open>try\<close>; when it raises,
  the handler of line 194 logs and line 197 then reads the variable \<open>browser\<close>, which
  was never assigned.  An exception raised at line 197 leaves \<^verbatim>\<open>main\<close>.
\<close>

definition main :: "world \<Rightarrow> action list \<Rightarrow> ((py_exc + unit) \<times> action list) option" where
  "main w tr =
     (case await Start_playwright (start_playwright w) tr of
        (Inl e, tr1) \<Rightarrow> Some (Inl e, tr1)
      | (Inr _, tr1) \<Rightarrow>
          (case await Launch (launch w) tr1 of
             (Inl e, tr2) \<Rightarrow>
               Some (Inl UnboundLocalError, tr2 @ [Log_main e, Stop_playwright])
           | (Inr _, tr2) \<Rightarrow>
               (case collect_products w tr2 of
                  None \<Rightarrow> None
                | Some (Inl e, tr3) \<Rightarrow>
                    (case await Close_browser (close_browser w) (tr3 @ [Log_main e]) of
                       (r, tr4) \<Rightarrow> Some (r, tr4 @ [Stop_playwright]))
                | Some (Inr products, tr3) \<Rightarrow>
                    (case write_results w products tr3 of
                       (Inl e, tr4) \<Rightarrow>
                         (case await Close_browser (close_browser w) (tr4 @ [Log_main e]) of
                            (r, tr5) \<Rightarrow> Some (r, tr5 @ [Stop_playwright]))
                     | (Inr _, tr4) \<Rightarrow>
                         (case await Close_browser (close_browser w) tr4 of
                            (r, tr5) \<Rightarrow> Some (r, tr5 @ [Stop_playwright]))))))"

text \<open>
  The script ends with \<^verbatim>\<open>asyncio.run(main())\<close>: the exit status of the process is 1
  when an exception leaves \<^verbatim>\<open>main\<close> and 0 when \<^verbatim>\<open>main\<close> returns.
\<close>

definition exit_status :: "py_exc + unit \<Rightarrow> nat" where
  "exit_status r = (case r of Inl e \<Rightarrow> 1 | Inr _ \<Rightarrow> 0)"

definition closes :: "action list \<Rightarrow> nat" where
  "closes tr = length (filter (\<lambda>a. a = Close_browser) tr)"

section \<open>Pages used as examples\<close>

fun is_RuntimeError :: "py_exc \<Rightarrow> bool" where
  "is_RuntimeError (RuntimeError_timeout st) = True"
| "is_RuntimeError (RuntimeError_wrapping st e) = True"
| "is_RuntimeError e = False"

definition empty_catalog :: page where
  "empty_catalog =
     \<lparr>inventory_marker = Done (), summary = Done (Some ''Showing 0 of 0 products''),
      rows_read = (\<lambda>k. Done []), wheel = (\<lambda>k. Done ()), growth_wait = (\<lambda>k. Done ())\<rparr>"

definition plain_item :: item where
  "plain_item =
     \<lparr>hover = Done (),
      fragments = Done [Done (Some ''ID: 48213''), Done (Some ''Shade Blue'')],
      title = Done (Some '' Lamp '')\<rparr>"

definition stalled_page :: page where
  "stalled_page =
     \<lparr>inventory_marker = Done (), summary = Done (Some ''Showing 1-2 of 5 products''),
      rows_read = (\<lambda>k. Done [plain_item, plain_item]), wheel = (\<lambda>k. Done ()),
      growth_wait = (\<lambda>k. Done ())\<rparr>"

definition broken_summary_page :: page where
  "broken_summary_page =
     \<lparr>inventory_marker = Done (), summary = Done (Some ''Showing all products''),
      rows_read = (\<lambda>k. Done [plain_item]), wheel = (\<lambda>k. Done ()),
      growth_wait = (\<lambda>k. Done ())\<rparr>"

section \<open>Definitions used to state the properties\<close>



text \<open>The delimiters of lines 140 to 143 and the fields they fill, in order.\<close>

definition label_seps :: "string list" where
  "label_seps = ['':'', ''Shade'', ''Details'', ''Guarantee'']"

definition label_fields :: "product \<Rightarrow> string list" where
  "label_fields p = [ID p, Shade p, Details p, Guarantee p]"

text \<open>
  The calls issued between the launch and the end of the extraction, and the calls issued
  by \<^verbatim>\<open>save_to_json\<close> and \<^verbatim>\<open>save_session\<close>.
\<close>

fun browse_action :: "action \<Rightarrow> bool" where
  "browse_action Start_playwright = False"
| "browse_action Launch = False"
| "browse_action Open_output = False"
| "browse_action (Dump_output d) = False"
| "browse_action Storage_state = False"
| "browse_action Eval_session_storage = False"
| "browse_action Open_session_file = False"
| "browse_action (Dump_session d) = False"
| "browse_action (Log_main e) = False"
| "browse_action Close_browser = False"
| "browse_action Stop_playwright = False"
| "browse_action a = True"

fun save_action :: "action \<Rightarrow> bool" where
  "save_action Open_output = True"
| "save_action (Dump_output d) = True"
| "save_action Storage_state = True"
| "save_action Eval_session_storage = True"
| "save_action Open_session_file = True"
| "save_action (Dump_session d) = True"
| "save_action a = False"

fun is_output_write :: "action \<Rightarrow> bool" where
  "is_output_write Open_output = True"
| "is_output_write (Dump_output d) = True"
| "is_output_write a = False"

definition output_writes :: "action list \<Rightarrow> action list" where
  "output_writes tr = filter is_output_write tr"

text \<open>A program only adds calls that satisfy \<open>P\<close> to the trace.\<close>

definition emits :: "(action \<Rightarrow> bool) \<Rightarrow> 'a prog \<Rightarrow> bool" where
  "emits P m \<longleftrightarrow> (\<forall>tr. \<exists>acts. snd (m tr) = tr @ acts \<and> list_all P acts)"


section \<open>Worlds used as examples\<close>

definition full_page :: page where
  "full_page =
     \<lparr>inventory_marker = Done (), summary = Done (Some ''Showing 1-2 of 2 products''),
      rows_read = (\<lambda>k. Done [plain_item, plain_item]), wheel = (\<lambda>k. Done ()),
      growth_wait = (\<lambda>k. Done ())\<rparr>"

definition base_world :: world where
  "base_world =
     \<lparr>username = Some ''user'', password = Some ''secret'',
      start_playwright = Done (), launch = Done (), new_context = Done (), new_page = Done (),
      load_state = Done (), close_browser = Done (), stored_session = No_file,
      session_io = \<lparr>add_cookies = Done (), add_init_script = Done (), storage_state = Done [],
                     eval_session_storage = Done ''{}'', open_session_file = Done (),
                     dump_session = Done ()\<rparr>,
      entry_page = \<lparr>goto = Done (), sign_in_visible = Done True, fill_email = Done (),
                     fill_password = Done (), click_submit = Done (), wait_sign_out = Done ()\<rparr>,
      nav_waits = (\<lambda>i. Done ()), nav_clicks = (\<lambda>i. Done ()), table = full_page,
      open_output = Done (), dump_output = Done ()\<rparr>"

definition no_credentials :: world where
  "no_credentials = base_world\<lparr>username := None\<rparr>"

definition launch_fails :: world where
  "launch_fails = base_world\<lparr>launch := Raises PlaywrightError\<rparr>"

definition broken_summary_world :: world where
  "broken_summary_world = base_world\<lparr>table := broken_summary_page\<rparr>"

section \<open>The init script of \<^verbatim>\<open>load_session\<close>\<close>

text \<open>
  Lines 46 to 53 build a JavaScript program: a function applied to the string literal
  in single quotes whose body is the value of \<^verbatim>\<open>session_storage\<close>, copied as it is.
  On the host \<^verbatim>\<open>hiring.idenhq.com\<close> the function calls \<^verbatim>\<open>JSON.parse\<close> on its
  argument and then \<^verbatim>\<open>sessionStorage.setItem\<close> for every entry.  The result of a
  JavaScript step is a value, an exception, or \<open>Not_modelled\<close> for the inputs this
  development does not cover.
\<close>

datatype 'a js = Value 'a | Throws | Not_modelled

definition squote :: char where "squote = CHR 0x27"
definition dquote :: char where "dquote = CHR 0x22"
definition backslash :: char where "backslash = CHR 0x5C"

text \<open>
  The value of a single-quoted string literal with the given body.  A quote in the body
  ends the literal early, and then the program is no longer the one call of lines 46 to
  53: such bodies, and the escapes that start with x, u or a digit, are not modelled.
  A backslash before any other character is dropped and the character kept, or replaced
  by the control character it names.
\<close>

definition line_terminator :: "char \<Rightarrow> bool" where
  "line_terminator c \<longleftrightarrow> c = CHR 0x0A \<or> c = CHR 0x0D"

definition js_escape :: "char \<Rightarrow> char js" where
  "js_escape d =
     (if d = CHR ''b'' then Value (CHR 0x08)
      else if d = CHR ''t'' then Value (CHR 0x09)
      else if d = CHR ''n'' then Value (CHR 0x0A)
      else if d = CHR ''v'' then Value (CHR 0x0B)
      else if d = CHR ''f'' then Value (CHR 0x0C)
      else if d = CHR ''r'' then Value (CHR 0x0D)
      else if d = CHR ''x'' \<or> d = CHR ''u'' \<or> is_digit d \<or> line_terminator d then Not_modelled
      else Value d)"

fun js_literal :: "string \<Rightarrow> string \<Rightarrow> string js" where
  "js_literal acc [] = Value (rev acc)"
| "js_literal acc [c] =
     (if c = squote \<or> c = backslash \<or> line_terminator c then Not_modelled
      else Value (rev (c # acc)))"
| "js_literal acc (c # d # cs) =
     (if c = squote \<or> line_terminator c then Not_modelled
      else if c = backslash then
        (case js_escape d of
           Value x \<Rightarrow> js_literal (x # acc) cs
         | Throws \<Rightarrow> Throws
         | Not_modelled \<Rightarrow> Not_modelled)
      else js_literal (c # acc) (d # cs))"

text \<open>
  \<^verbatim>\<open>JSON.parse\<close> on the text of an object whose values are strings, which is what
  \<^verbatim>\<open>JSON.stringify(sessionStorage)\<close> produces: a scan of the text, character by
  character.  \<open>Throws\<close> is returned only where the text is not JSON at all; values
  other than strings and the escape that starts with u are not modelled.
\<close>

type_synonym entries = "(string \<times> string) list"

datatype scan =
    Before_object
  | Key_or_close entries
  | Key_expected entries
  | In_key entries string
  | Key_escape entries string
  | Colon_expected entries string
  | Value_expected entries string
  | In_value entries string string
  | Value_escape entries string string
  | Comma_or_close entries
  | After_object entries

definition json_ws :: "char \<Rightarrow> bool" where
  "json_ws c \<longleftrightarrow> c = CHR 0x20 \<or> c = CHR 0x09 \<or> c = CHR 0x0A \<or> c = CHR 0x0D"

definition json_escape :: "char \<Rightarrow> char js" where
  "json_escape d =
     (if d = dquote \<or> d = backslash \<or> d = CHR ''/'' then Value d
      else if d = CHR ''b'' then Value (CHR 0x08)
      else if d = CHR ''t'' then Value (CHR 0x09)
      else if d = CHR ''n'' then Value (CHR 0x0A)
      else if d = CHR ''f'' then Value (CHR 0x0C)
      else if d = CHR ''r'' then Value (CHR 0x0D)
      else if d = CHR ''u'' then Not_modelled
      else Throws)"

definition control_char :: "char \<Rightarrow> bool" where
  "control_char c \<longleftrightarrow> (of_char c :: nat) < 32"

fun scan_step :: "scan \<Rightarrow> char \<Rightarrow> scan js" where
  "scan_step Before_object c =
     (if json_ws c then Value Before_object
      else if c = CHR ''{'' then Value (Key_or_close [])
      else Not_modelled)"
| "scan_step (Key_or_close es) c =
     (if json_ws c then Value (Key_or_close es)
      else if c = dquote then Value (In_key es [])
      else if c = CHR ''}'' then Value (After_object es)
      else Throws)"
| "scan_step (Key_expected es) c =
     (if json_ws c then Value (Key_expected es)
      else if c = dquote then Value (In_key es [])
      else Throws)"
| "scan_step (In_key es acc) c =
     (if c = dquote then Value (Colon_expected es (rev acc))
      else if c = backslash then Value (Key_escape es acc)
      else if control_char c then Throws
      else Value (In_key es (c # acc)))"
| "scan_step (Key_escape es acc) c =
     (case json_escape c of
        Value x \<Rightarrow> Value (In_key es (x # acc))
      | Throws \<Rightarrow> Throws
      | Not_modelled \<Rightarrow> Not_modelled)"
| "scan_step (Colon_expected es k) c =
     (if json_ws c then Value (Colon_expected es k)
      else if c = CHR '':'' then Value (Value_expected es k)
      else Throws)"
| "scan_step (Value_expected es k) c =
     (if json_ws c then Value (Value_expected es k)
      else if c = dquote then Value (In_value es k [])
      else Not_modelled)"
| "scan_step (In_value es k acc) c =
     (if c = dquote then Value (Comma_or_close (es @ [(k, rev acc)]))
      else if c = backslash then Value (Value_escape es k acc)
      else if control_char c then Throws
      else Value (In_value es k (c # acc)))"
| "scan_step (Value_escape es k acc) c =
     (case json_escape c of
        Value x \<Rightarrow> Value (In_value es k (x # acc))
      | Throws \<Rightarrow> Throws
      | Not_modelled \<Rightarrow> Not_modelled)"
| "scan_step (Comma_or_close es) c =
     (if json_ws c then Value (Comma_or_close es)
      else if c = CHR '','' then Value (Key_expected es)
      else if c = CHR ''}'' then Value (After_object es)
      else Throws)"
| "scan_step (After_object es) c =
     (if json_ws c then Value (After_object es) else Throws)"

fun json_scan :: "scan \<Rightarrow> string \<Rightarrow> entries js" where
  "json_scan st [] = (case st of After_object es \<Rightarrow> Value es | _ \<Rightarrow> Throws)"
| "json_scan st (c # cs) =
     (case scan_step st c of
        Value st' \<Rightarrow> json_scan st' cs
      | Throws \<Rightarrow> Throws
      | Not_modelled \<Rightarrow> Not_modelled)"

definition json_parse_entries :: "string \<Rightarrow> entries js" where
  "json_parse_entries text = json_scan Before_object text"

text \<open>
  The entries that the init script sets on a page of the given host, in order; it throws
  before the first \<^verbatim>\<open>setItem\<close> when \<^verbatim>\<open>JSON.parse\<close> throws.
\<close>

definition run_init_script :: "string \<Rightarrow> string \<Rightarrow> entries js" where
  "run_init_script hostname arg =
     (case js_literal [] arg of
        Value storage \<Rightarrow>
          if hostname = ''hiring.idenhq.com'' then json_parse_entries storage else Value []
      | Throws \<Rightarrow> Throws
      | Not_modelled \<Rightarrow> Not_modelled)"

text \<open>
  The text \<^verbatim>\<open>JSON.stringify\<close> returns for a session storage with one entry, whose key
  is \<^verbatim>\<open>user\<close> and whose value is the text \<^verbatim>\<open>{"id":1}\<close>: the quotes inside the value
  are escaped with a backslash.
\<close>

definition user_storage_text :: string where
  "user_storage_text =
     ''{'' @ [dquote] @ ''user'' @ [dquote] @ '':'' @ [dquote]
       @ ''{'' @ [backslash, dquote] @ ''id'' @ [backslash, dquote] @ '':1}''
       @ [dquote] @ ''}''"

definition login_cookie :: cookie where
  "login_cookie =
     \<lparr>cookie_name = ''sid'', cookie_value = ''abc'', cookie_domain = ''hiring.idenhq.com''\<rparr>"

definition user_session_env :: session_env where
  "user_session_env =
     \<lparr>add_cookies = Done (), add_init_script = Done (), storage_state = Done [login_cookie],
      eval_session_storage = Done user_storage_text, open_session_file = Done (),
      dump_session = Done ()\<rparr>"

definition plain_char :: "char \<Rightarrow> bool" where
  "plain_char c \<longleftrightarrow> c \<noteq> squote \<and> c \<noteq> backslash \<and> \<not> line_terminator c"

text \<open>A row with three fragments, of which the shade is the absent one.\<close>

definition shadeless_item :: item where
  "shadeless_item =
     \<lparr>hover = Done (),
      fragments = Done [Done (Some ''ID: 7''), Done (Some ''Details soft''),
                        Done (Some ''Guarantee 2y'')],
      title = Done (Some ''Lamp'')\<rparr>"

section \<open>Properties of the string functions\<close>

lemma split_no_occurrence:
  "\<not> sublist sep v \<Longrightarrow> py_split_from sep acc v = [rev acc @ v]"
proof (induction v arbitrary: acc)
  case Nil
  then show ?case by simp
next
  case (Cons c cs)
  have np: "\<not> prefix sep (c # cs)"
    using Cons.prems prefix_imp_sublist by blast
  have ns: "\<not> sublist sep cs"
    using Cons.prems by (meson sublist_Cons_right)
  show ?case using np Cons.IH [OF ns, of "c # acc"] by simp
qed








section \<open>The collection loop\<close>

lemma reraise_is_RuntimeError: "reraise_as st (Inl e) = Inl e' \<Longrightarrow> is_RuntimeError e'"
  by (auto simp: reraise_as_def split: if_splits)

text \<open>
  C4: in an iteration of the loop, when the number of rows just read equals the number
  read in the iteration before, the loop returns the rows just read and issues no hover,
  scroll or wait, whether or not the expected total is reached.
\<close>

theorem stabilization_terminates:
  assumes "count < total_count" and "rows_read pg k = Done rs"
    and "int (length rs) = prev_count"
  shows "collect_loop pg total_count k prev_count count rows tr =
           Some (Inr (Some rs), tr @ [Read_rows])"
  using assms by (subst collect_loop.simps) simp

theorem stabilization_terminates_witness:
  "(2::int) < 5 \<and> rows_read stalled_page 1 = Done [plain_item, plain_item]
   \<and> int (length [plain_item, plain_item]) = 2
   \<and> collect_loop stalled_page 5 1 2 2 (Some [plain_item, plain_item]) [Read_rows, Hover, Wheel, Wait_growth 2]
       = Some (Inr (Some [plain_item, plain_item]), [Read_rows, Hover, Wheel, Wait_growth 2, Read_rows])"
proof -
  have a: "(2::int) < 5" by simp
  have b: "rows_read stalled_page 1 = Done [plain_item, plain_item]"
    by (simp add: stalled_page_def)
  have c: "int (length [plain_item, plain_item]) = 2" by simp
  show ?thesis
    using stabilization_terminates [OF a b c, of "Some [plain_item, plain_item]" "[Read_rows, Hover, Wheel, Wait_growth 2]"] b
    by simp
qed

text \<open>
  C5: when the count is not below the expected total the loop returns at once; and when
  the rows read in an iteration are at least as many as the expected total, the loop
  returns these rows after the read, with no hover, scroll or wait.
\<close>

theorem reaching_total_terminates:
  "(total_count \<le> count \<longrightarrow>
      collect_loop pg total_count k prev_count count rows tr = Some (Inr rows, tr))
   \<and> (count < total_count \<and> rows_read pg k = Done rs \<and> total_count \<le> int (length rs) \<longrightarrow>
      collect_loop pg total_count k prev_count count rows tr =
        Some (Inr (Some rs), tr @ [Read_rows]))"
proof -
  have stop: "collect_loop pg total_count k' p c r t = Some (Inr r, t)"
    if "total_count \<le> c" for k' p c r t
    using that by (subst collect_loop.simps) simp
  have "collect_loop pg total_count k prev_count count rows tr =
          Some (Inr (Some rs), tr @ [Read_rows])"
    if "count < total_count" "rows_read pg k = Done rs" "total_count \<le> int (length rs)"
    using that stop [of "int (length rs)" "Suc k" "int (length rs)" "Some rs" "tr @ [Read_rows]"]
    by (subst collect_loop.simps) simp
  then show ?thesis using stop by blast
qed

theorem reaching_total_terminates_witness:
  "collect_loop stalled_page 2 0 (- 1) 0 None [] = Some (Inr (Some [plain_item, plain_item]), [Read_rows])
   \<and> collect_loop stalled_page 2 1 2 2 (Some [plain_item]) [Read_rows] = Some (Inr (Some [plain_item]), [Read_rows])"
  using reaching_total_terminates [of 2 0 stalled_page 0 "- 1" None "[]" "[plain_item, plain_item]"]
    reaching_total_terminates [of 2 2 stalled_page 1 2 "Some [plain_item]" "[Read_rows]" "[]"]
  by (simp add: stalled_page_def)

lemma parse_total_zero: "parse_total ''Showing 0 of 0 products'' = Inr 0"
  by code_simp

text \<open>
  C1: on a page whose summary reads ``Showing 0 of 0 products'' the loop body never runs,
  so \<open>rows\<close> is never assigned and line 136 raises UnboundLocalError, which leaves
  \<^verbatim>\<open>extract_products\<close> as a RuntimeError; no empty list is returned.  No growth
  trigger was issued.
\<close>

theorem zero_total_raises:
  "extract_products empty_catalog [] =
     Some (Inl (RuntimeError_wrapping Extraction UnboundLocalError), [Wait_inventory, Read_summary])"
  by (simp add: extract_products_def extract_body_def read_expected_total_def then_do_def
      await_def lift_def empty_catalog_def summary_total_def collect_loop.simps reraise_as_def
      parse_total_zero)

text \<open>
  C7: when reading the summary raises (the element is absent), or the summary has no text,
  or line 115 cannot parse the total out of it, \<^verbatim>\<open>extract_products\<close> raises a
  RuntimeError and has issued no hover, scroll or wait.
\<close>

theorem unreadable_summary_fails:
  assumes "summary pg = Raises e \<or> (\<exists>t. summary pg = Done t \<and> summary_total t = Inl e)"
  shows "\<exists>e' acts. extract_products pg tr = Some (Inl e', tr @ acts)
           \<and> is_RuntimeError e' \<and> growth_triggers acts = 0"
proof -
  have "\<exists>e0 acts. read_expected_total pg tr = (Inl e0, tr @ acts) \<and> growth_triggers acts = 0"
  proof (cases "inventory_marker pg")
    case (Raises e1)
    then have "read_expected_total pg tr = (Inl e1, tr @ [Wait_inventory])"
      by (simp add: read_expected_total_def then_do_def await_def)
    then show ?thesis by (auto simp: growth_triggers_def)
  next
    case (Done u)
    then have "read_expected_total pg tr = (Inl e, tr @ [Wait_inventory, Read_summary])"
      using assms by (auto simp: read_expected_total_def then_do_def await_def lift_def)
    then show ?thesis by (auto simp: growth_triggers_def)
  qed
  then obtain e0 acts where r: "read_expected_total pg tr = (Inl e0, tr @ acts)"
    and g: "growth_triggers acts = 0" by blast
  obtain e' where e': "reraise_as Extraction (Inl e0 :: py_exc + product list) = Inl e'"
    by (cases "e0 = PlaywrightTimeoutError") (simp_all add: reraise_as_def)
  have "extract_products pg tr = Some (Inl e', tr @ acts)"
    using r e' by (simp add: extract_products_def extract_body_def)
  then show ?thesis using g reraise_is_RuntimeError [OF e'] by blast
qed

lemma no_of_in_summary: "summary_total (Some ''Showing all products'') = Inl IndexError"
  by code_simp

theorem unreadable_summary_fails_witness:
  "(summary broken_summary_page = Done (Some ''Showing all products'')
     \<and> summary_total (Some ''Showing all products'') = Inl IndexError)
   \<and> (\<exists>e' acts. extract_products broken_summary_page [] = Some (Inl e', [] @ acts)
         \<and> is_RuntimeError e' \<and> growth_triggers acts = 0)"
proof -
  have h: "summary broken_summary_page = Done (Some ''Showing all products'')"
    by (simp add: broken_summary_page_def)
  have "summary broken_summary_page = Raises IndexError \<or>
        (\<exists>t. summary broken_summary_page = Done t \<and> summary_total t = Inl IndexError)"
    using h no_of_in_summary by simp
  from unreadable_summary_fails [OF this, of "[]"] h no_of_in_summary show ?thesis by simp
qed

section \<open>Parsing a row\<close>

lemma label_value_no_delimiter:
  "\<not> sublist sep s \<Longrightarrow> label_value sep (Some s) = Inl IndexError"
  by (simp add: label_value_def py_split_def split_no_occurrence second_def)




text \<open>
  C6, as stated, fails: the fragments are taken by position.  A row whose shade fragment
  is absent has the details fragment at the second position, where line 141 splits it at
  ``Shade'' and raises IndexError.
\<close>

theorem absent_middle_fragment_counterexample:
  "fragments shadeless_item =
     Done [Done (Some ''ID: 7''), Done (Some ''Details soft''), Done (Some ''Guarantee 2y'')]
   \<and> length [Done (Some ''ID: 7''), Done (Some ''Details soft''),
              Done (Some ''Guarantee 2y'') :: string option outcome] < 4
   \<and> title shadeless_item = Done (Some ''Lamp'')
   \<and> parse_item shadeless_item [] =
       (Inl IndexError, [Read_fragments, Read_title, Read_fragment 0, Read_fragment 1])"
proof -
  have "parse_item shadeless_item [] =
       (Inl IndexError, [Read_fragments, Read_title, Read_fragment 0, Read_fragment 1])"
    by code_simp
  then show ?thesis by (simp add: shadeless_item_def)
qed

text \<open>
  C6, amended: for a row with fewer than four labeled fragments, whose title can be read
  and whose fragments present are the first ones of identifier, shade, details and
  guarantee, in this order, each holding the delimiter of its position, parsing returns a
  record; its name is the trimmed text of the title and every field whose position lies
  beyond the last fragment present is the empty string.
\<close>

theorem absent_fragments_default:
  assumes "fragments it = Done inner" and "length inner < 4" and "title it = Done (Some t)"
    and "\<forall>i < length inner. \<exists>s v. inner ! i = Done (Some s)
           \<and> second (py_split (label_seps ! i) s) = Inr v"
  shows "\<exists>p tr'. parse_item it tr = (Inr p, tr') \<and> Product_Name p = py_strip t
           \<and> (\<forall>i. length inner \<le> i \<and> i < 4 \<longrightarrow> label_fields p ! i = [])"
proof -
  have h: "\<exists>s v. inner ! i = Done (Some s) \<and> second (py_split (label_seps ! i) s) = Inr v"
    if "i < length inner" for i
    using assms(4) that by blast
  consider "inner = []" | f0 where "inner = [f0]" | f0 f1 where "inner = [f0, f1]"
    | f0 f1 f2 where "inner = [f0, f1, f2]"
    using assms(2)
    by (cases inner; cases "tl inner"; cases "tl (tl inner)"; cases "tl (tl (tl inner))") auto
  then show ?thesis
  proof cases
    case 1
    then show ?thesis
      using assms(1,3)
      by (simp add: parse_item_def then_do_def await_def lift_def ret_def title_value_def
          field_at_def label_fields_def nth_Cons')
  next
    case 2
    then obtain s0 v0 where "f0 = Done (Some s0)" "second (py_split '':'' s0) = Inr v0"
      using h [of 0] by (auto simp: label_seps_def)
    then show ?thesis
      using assms(1,3) 2
      by (simp add: parse_item_def then_do_def await_def lift_def ret_def title_value_def
          field_at_def label_fields_def label_value_def nth_Cons')
  next
    case 3
    from h [of 0] h [of 1] obtain s0 v0 s1 v1 where "f0 = Done (Some s0)" "second (py_split '':'' s0) = Inr v0"
      "f1 = Done (Some s1)" "second (py_split ''Shade'' s1) = Inr v1"
      using 3 by (auto simp: label_seps_def)
    then show ?thesis
      using assms(1,3) 3
      by (simp add: parse_item_def then_do_def await_def lift_def ret_def title_value_def
          field_at_def label_fields_def label_value_def nth_Cons')
  next
    case 4
    from h [of 0] h [of 1] h [of 2] obtain s0 v0 s1 v1 s2 v2 where "f0 = Done (Some s0)" "second (py_split '':'' s0) = Inr v0"
      "f1 = Done (Some s1)" "second (py_split ''Shade'' s1) = Inr v1"
      "f2 = Done (Some s2)" "second (py_split ''Details'' s2) = Inr v2"
      using 4 by (auto simp: label_seps_def)
    then show ?thesis
      using assms(1,3) 4
      by (simp add: parse_item_def then_do_def await_def lift_def ret_def title_value_def
          field_at_def label_fields_def label_value_def nth_Cons')
  qed
qed

lemma plain_item_parsed:
  "parse_item plain_item [] =
     (Inr \<lparr>Product_Name = ''Lamp'', ID = ''48213'', Shade = ''Blue'', Details = [], Guarantee = []\<rparr>,
      [Read_fragments, Read_title, Read_fragment 0, Read_fragment 1])"
  by code_simp


theorem absent_fragments_default_witness:
  "fragments plain_item = Done [Done (Some ''ID: 48213''), Done (Some ''Shade Blue'')]
   \<and> title plain_item = Done (Some '' Lamp '')
   \<and> (\<exists>p tr'. parse_item plain_item [] = (Inr p, tr') \<and> Product_Name p = ''Lamp''
         \<and> Details p = [] \<and> Guarantee p = [])"
proof -
  let ?inner = "[Done (Some ''ID: 48213''), Done (Some ''Shade Blue'')]"
  have f: "fragments plain_item = Done ?inner" by (simp add: plain_item_def)
  have l: "length ?inner < 4" by simp
  have t: "title plain_item = Done (Some '' Lamp '')" by (simp add: plain_item_def)
  have s0: "second (py_split '':'' ''ID: 48213'') = Inr '' 48213''" by code_simp
  have s1: "second (py_split ''Shade'' ''Shade Blue'') = Inr '' Blue''" by code_simp
  have ok: "\<forall>i < length ?inner. \<exists>s v. ?inner ! i = Done (Some s)
              \<and> second (py_split (label_seps ! i) s) = Inr v"
    using s0 s1 by (simp add: label_seps_def less_Suc_eq)
  have st: "py_strip '' Lamp '' = ''Lamp''" by (simp add: py_strip_def is_space_def)
  obtain p tr' where r: "parse_item plain_item [] = (Inr p, tr')"
    and n: "Product_Name p = py_strip '' Lamp ''"
    and e: "\<forall>i. length ?inner \<le> i \<and> i < 4 \<longrightarrow> label_fields p ! i = []"
    using absent_fragments_default [OF f l t ok, of "[]"] by blast
  have "Details p = []" using e [rule_format, of 2] by (simp add: label_fields_def)
  moreover have "Guarantee p = []" using e [rule_format, of 3] by (simp add: label_fields_def)
  ultimately show ?thesis using f t r n st by auto
qed

section \<open>The orchestrator\<close>

lemma emits_ret: "emits P (ret v)"
  by (simp add: emits_def ret_def)

lemma emits_raise: "emits P (raise e)"
  by (simp add: emits_def raise_def)

lemma emits_lift: "emits P (lift r)"
  by (simp add: emits_def lift_def)

lemma emits_await: "P a \<Longrightarrow> emits P (await a r)"
  by (cases r) (simp_all add: emits_def await_def)

lemma emits_then_do:
  assumes "emits P m" and "\<And>v. emits P (f v)"
  shows "emits P (then_do m f)"
  unfolding emits_def
proof
  fix tr
  obtain r tr1 where m: "m tr = (r, tr1)" by (cases "m tr")
  obtain a1 where a1: "tr1 = tr @ a1" "list_all P a1"
    using assms(1) m unfolding emits_def by (metis snd_conv)
  show "\<exists>acts. snd (then_do m f tr) = tr @ acts \<and> list_all P acts"
  proof (cases r)
    case (Inl e)
    then show ?thesis using m a1 by (simp add: then_do_def)
  next
    case (Inr v)
    obtain a2 where a2: "snd (f v tr1) = tr1 @ a2" "list_all P a2"
      using assms(2) [of v] unfolding emits_def by blast
    have "snd (then_do m f tr) = tr @ (a1 @ a2)"
      using m Inr a1 a2 by (simp add: then_do_def)
    moreover have "list_all P (a1 @ a2)" using a1 a2 by simp
    ultimately show ?thesis by blast
  qed
qed

lemma emits_guarded: "emits P m \<Longrightarrow> emits P (guarded st m)"
  by (simp add: emits_def guarded_def split: prod.splits) (metis snd_conv)

lemma emits_login: "emits browse_action (login_if_needed user pass lp)"
  unfolding login_if_needed_def
  by (auto split: option.splits intro!: emits_raise emits_guarded emits_then_do emits_await emits_ret)

lemma emits_navigate: "emits browse_action (navigate_to_product_table waits clicks)"
  unfolding navigate_to_product_table_def
  by (intro emits_guarded emits_then_do emits_await) simp_all

lemma emits_load_session: "emits browse_action (load_session env file ctx)"
  by (simp add: emits_def load_session_def split: session_file.splits option.splits outcome.splits)

lemma emits_reach_table: "emits browse_action (reach_table w)"
  unfolding reach_table_def
  by (intro emits_then_do emits_await emits_load_session emits_login emits_navigate) simp_all

lemma emits_trigger_growth: "emits browse_action (trigger_growth pg k rs)"
  unfolding trigger_growth_def
  by (cases rs) (auto intro!: emits_raise emits_then_do emits_await)

lemma emits_field_at: "emits browse_action (field_at inner i sep)"
  unfolding field_at_def
  by (auto intro!: emits_ret emits_then_do emits_await emits_lift)

lemma emits_parse_item: "emits browse_action (parse_item it)"
  unfolding parse_item_def
  by (intro emits_then_do emits_await emits_lift emits_field_at emits_ret) simp_all

lemma emits_parse_rows: "emits browse_action (parse_rows rs acc)"
  by (induction rs arbitrary: acc) (auto intro!: emits_ret emits_then_do emits_parse_item)

lemma emits_read_expected_total: "emits browse_action (read_expected_total pg)"
  unfolding read_expected_total_def
  by (intro emits_then_do emits_await emits_lift) simp_all

lemma emitsD: "emits P m \<Longrightarrow> m tr = (r, tr') \<Longrightarrow> \<exists>acts. tr' = tr @ acts \<and> list_all P acts"
  unfolding emits_def by (metis snd_conv)

lemma collect_loop_emits:
  assumes "collect_loop pg0 tc0 k0 prev0 count0 rows0 tr0 = Some y0"
  shows "\<exists>acts. snd y0 = tr0 @ acts \<and> list_all browse_action acts"
proof (rule collect_loop.raw_induct
    [where P = "\<lambda>pg tc k prev count rows tr y.
                  \<exists>acts. snd y = tr @ acts \<and> list_all browse_action acts",
     OF _ assms], goal_cases)
  case (1 loop pg tc k prev count rows tr y)
  show ?case
  proof (cases "count < tc")
    case False
    then show ?thesis using 1(2) by auto
  next
    case True
    show ?thesis
    proof (cases "rows_read pg k")
      case (Raises e)
      then show ?thesis using 1(2) True by auto
    next
      case (Done rs)
      show ?thesis
      proof (cases "int (length rs) = prev")
        case True
        then show ?thesis using 1(2) \<open>count < tc\<close> Done by auto
      next
        case neq: False
        show ?thesis
        proof (cases "int (length rs) < tc")
          case False
          then have "loop pg tc (Suc k) (int (length rs)) (int (length rs)) (Some rs) (tr @ [Read_rows]) = Some y"
            using 1(2) \<open>count < tc\<close> Done neq by simp
          from 1(1) [OF this] show ?thesis by auto
        next
          case True
          obtain r tr1 where tg: "trigger_growth pg k rs (tr @ [Read_rows]) = (r, tr1)"
            by (cases "trigger_growth pg k rs (tr @ [Read_rows])")
          obtain a1 where a1: "tr1 = (tr @ [Read_rows]) @ a1" "list_all browse_action a1"
            using emitsD [OF emits_trigger_growth tg] by blast
          show ?thesis
          proof (cases r)
            case (Inl e)
            then have "y = (Inl e, tr1)"
              using 1(2) \<open>count < tc\<close> Done neq True tg by simp
            then show ?thesis using a1 by simp
          next
            case (Inr u)
            then have "loop pg tc (Suc k) (int (length rs)) (int (length rs)) (Some rs) tr1 = Some y"
              using 1(2) \<open>count < tc\<close> Done neq True tg by simp
            from 1(1) [OF this] obtain a2 where "snd y = tr1 @ a2" "list_all browse_action a2"
              by blast
            then show ?thesis using a1 by simp
          qed
        qed
      qed
    qed
  qed
qed

lemma extract_products_emits:
  assumes "extract_products pg tr = Some (r, tr')"
  shows "\<exists>acts. tr' = tr @ acts \<and> list_all browse_action acts"
proof -
  obtain r0 where b: "extract_body pg tr = Some (r0, tr')"
    using assms by (auto simp: extract_products_def)
  obtain t tr1 where rt: "read_expected_total pg tr = (t, tr1)"
    by (cases "read_expected_total pg tr")
  obtain a1 where a1: "tr1 = tr @ a1" "list_all browse_action a1"
    using emitsD [OF emits_read_expected_total rt] by blast
  show ?thesis
  proof (cases t)
    case (Inl e)
    then show ?thesis using b rt a1 by (auto simp: extract_body_def)
  next
    case (Inr tc)
    then obtain rr tr2 where cl: "collect_loop pg tc 0 (- 1) 0 None tr1 = Some (rr, tr2)"
      using b rt by (auto simp: extract_body_def split: option.splits)
    obtain a2 where a2: "tr2 = tr1 @ a2" "list_all browse_action a2"
      using collect_loop_emits [OF cl] by auto
    show ?thesis
    proof (cases rr)
      case (Inl e)
      then show ?thesis using b rt Inr cl a1 a2 by (auto simp: extract_body_def)
    next
      case rows: (Inr ro)
      show ?thesis
      proof (cases ro)
        case None
        then show ?thesis using b rt Inr cl rows a1 a2 by (auto simp: extract_body_def)
      next
        case (Some rs)
        then have pr: "parse_rows rs [] tr2 = (r0, tr')"
          using b rt Inr cl rows by (auto simp: extract_body_def)
        obtain a3 where "tr' = tr2 @ a3" "list_all browse_action a3"
          using emitsD [OF emits_parse_rows pr] by blast
        then show ?thesis using a1 a2 by simp
      qed
    qed
  qed
qed

lemma collect_products_emits:
  assumes "collect_products w tr = Some (r, tr')"
  shows "\<exists>acts. tr' = tr @ acts \<and> list_all browse_action acts"
proof -
  obtain r1 tr1 where rt: "reach_table w tr = (r1, tr1)" by (cases "reach_table w tr")
  obtain a1 where a1: "tr1 = tr @ a1" "list_all browse_action a1"
    using emitsD [OF emits_reach_table rt] by blast
  show ?thesis
  proof (cases r1)
    case (Inl e)
    then show ?thesis using assms rt a1 by (auto simp: collect_products_def)
  next
    case (Inr u)
    then have "extract_products (table w) tr1 = Some (r, tr')"
      using assms rt by (simp add: collect_products_def)
    from extract_products_emits [OF this] a1 show ?thesis by auto
  qed
qed

lemma emits_save_to_json: "emits save_action (save_to_json opening dumping data)"
  by (simp add: emits_def save_to_json_def then_do_def await_def split: outcome.splits)

lemma emits_save_session: "emits save_action (save_session env file)"
  by (simp add: emits_def save_session_def split: outcome.splits)

lemma emits_write_results: "emits save_action (write_results w products)"
  unfolding write_results_def
  by (intro emits_then_do emits_save_to_json emits_save_session emits_ret)

lemma closes_browse: "list_all browse_action acts \<Longrightarrow> closes (tr @ acts) = closes tr"
  by (induction acts) (auto simp: closes_def)

lemma closes_save: "list_all save_action acts \<Longrightarrow> closes (tr @ acts) = closes tr"
  by (induction acts) (auto simp: closes_def)

lemma writes_browse:
  "list_all browse_action acts \<Longrightarrow> output_writes (tr @ acts) = output_writes tr"
  by (induction acts) (auto simp: output_writes_def elim: is_output_write.elims)


lemma main_returns_normally:
  assumes "main w tr0 = Some (r, tr)" and "start_playwright w = Done ()"
    and "launch w = Done ()" and "close_browser w = Done ()"
  shows "r = Inr ()"
  using assms
  by (auto simp: main_def await_def split: option.splits prod.splits sum.splits)

text \<open>
  C9, amended: in every run of \<^verbatim>\<open>main\<close> that ends and in which the browser was
  launched, the browser is closed exactly once, whether the run succeeded or a step
  raised.
\<close>

theorem browser_closed_once:
  assumes "main w tr0 = Some (r, tr)" and "start_playwright w = Done ()"
    and "launch w = Done ()"
  shows "closes tr = closes tr0 + 1"
proof -
  let ?tr2 = "tr0 @ [Start_playwright, Launch]"
  have c2: "closes ?tr2 = closes tr0" by (simp add: closes_def)
  obtain r3 tr3 where cp: "collect_products w ?tr2 = Some (r3, tr3)"
    using assms by (auto simp: main_def await_def split: option.splits)
  obtain a3 where a3: "tr3 = ?tr2 @ a3" "list_all browse_action a3"
    using collect_products_emits [OF cp] by blast
  have c3: "closes tr3 = closes tr0"
    using closes_browse [OF a3(2), of ?tr2] a3(1) c2 by simp
  have cl: "closes (snd (await Close_browser (close_browser w) t) @ [Stop_playwright])
              = closes t + 1" for t
    by (cases "close_browser w") (simp_all add: await_def closes_def)
  show ?thesis
  proof (cases r3)
    case (Inl e)
    then have "tr = snd (await Close_browser (close_browser w) (tr3 @ [Log_main e])) @ [Stop_playwright]"
      using assms cp by (auto simp: main_def await_def split: prod.splits)
    then show ?thesis using cl [of "tr3 @ [Log_main e]"] c3 by (simp add: closes_def)
  next
    case (Inr products)
    obtain r4 tr4 where wr: "write_results w products tr3 = (r4, tr4)"
      by (cases "write_results w products tr3")
    obtain a4 where a4: "tr4 = tr3 @ a4" "list_all save_action a4"
      using emitsD [OF emits_write_results wr] by blast
    have c4: "closes tr4 = closes tr0"
      using closes_save [OF a4(2), of tr3] a4(1) c3 by simp
    show ?thesis
    proof (cases r4)
      case (Inl e)
      then have "tr = snd (await Close_browser (close_browser w) (tr4 @ [Log_main e])) @ [Stop_playwright]"
        using assms cp Inr wr by (auto simp: main_def await_def split: prod.splits)
      then show ?thesis using cl [of "tr4 @ [Log_main e]"] c4 by (simp add: closes_def)
    next
      case ok: (Inr u)
      then have "tr = snd (await Close_browser (close_browser w) tr4) @ [Stop_playwright]"
        using assms cp Inr wr by (auto simp: main_def await_def split: prod.splits)
      then show ?thesis using cl [of tr4] c4 by simp
    qed
  qed
qed

text \<open>
  C9, as stated, fails: when the launch raises, \<^verbatim>\<open>browser.close()\<close> is never
  called; line 197 raises UnboundLocalError instead.
\<close>

theorem launch_failure_counterexample:
  "main launch_fails [] =
     Some (Inl UnboundLocalError, [Start_playwright, Launch, Log_main PlaywrightError, Stop_playwright])
   \<and> closes [Start_playwright, Launch, Log_main PlaywrightError, Stop_playwright] = 0"
  by (simp add: main_def await_def launch_fails_def base_world_def closes_def)

lemma parse_total_two: "parse_total ''Showing 1-2 of 2 products'' = Inr 2"
  by code_simp

lemma reach_table_base:
  "reach_table base_world [Start_playwright, Launch] =
     (Inr (), [Start_playwright, Launch, New_context, Session_file_exists, New_page,
               Wait_load_state, Goto, Sign_in_visible, Fill_email ''user'',
               Fill_password ''secret'', Click_submit, Wait_sign_out, Nav_wait 0, Nav_click 0,
               Nav_click 1, Nav_click 2, Nav_click 3, Nav_click 4, Nav_wait 1])"
  by (simp add: reach_table_def base_world_def then_do_def await_def load_session_def
      login_if_needed_def navigate_to_product_table_def guarded_def reraise_as_def ret_def)



lemma main_base_world:
  "main base_world [] =
     Some (Inr (),
       [Start_playwright, Launch, New_context, Session_file_exists, New_page,
        Wait_load_state, Goto, Sign_in_visible, Fill_email ''user'',
        Fill_password ''secret'', Click_submit, Wait_sign_out, Nav_wait 0,
        Nav_click 0, Nav_click 1, Nav_click 2, Nav_click 3, Nav_click 4,
        Nav_wait 1, Wait_inventory, Read_summary, Read_rows, Read_fragments,
        Read_title, Read_fragment 0, Read_fragment 1, Read_fragments,
        Read_title, Read_fragment 0, Read_fragment 1, Open_output,
        Dump_output
         [\<lparr>Product_Name = ''Lamp'', ID = ''48213'', Shade = ''Blue'',
             Details = [], Guarantee = []\<rparr>,
          \<lparr>Product_Name = ''Lamp'', ID = ''48213'', Shade = ''Blue'',
             Details = [], Guarantee = []\<rparr>],
        Storage_state, Eval_session_storage, Open_session_file,
        Dump_session \<lparr>session_storage = ''{}'', cookies = []\<rparr>, Close_browser,
        Stop_playwright])"
  by code_simp

theorem browser_closed_once_witness:
  "(\<exists>tr. main base_world [] = Some (Inr (), tr) \<and> closes tr = closes [] + 1)
   \<and> start_playwright base_world = Done () \<and> launch base_world = Done ()"
proof -
  have s: "start_playwright base_world = Done ()" and l: "launch base_world = Done ()"
    by (simp_all add: base_world_def)
  obtain tr where m: "main base_world [] = Some (Inr (), tr)"
    using main_base_world by blast
  from browser_closed_once [OF m s l] m s l show ?thesis by blast
qed

text \<open>
  C2, as stated, fails: with no user name in the environment \<^verbatim>\<open>login_if_needed\<close>
  raises, \<^verbatim>\<open>main\<close> logs the exception, closes the browser and returns, so the
  process ends with exit status 0.
\<close>

theorem failure_exits_zero_counterexample:
  "main no_credentials [] =
     Some (Inr (),
       [Start_playwright, Launch, New_context, Session_file_exists, New_page,
        Wait_load_state, Log_main ValueError, Close_browser, Stop_playwright])
   \<and> exit_status (Inr ()) = 0"
proof -
  have "main no_credentials [] =
     Some (Inr (),
       [Start_playwright, Launch, New_context, Session_file_exists, New_page,
        Wait_load_state, Log_main ValueError, Close_browser, Stop_playwright])"
    by code_simp
  then show ?thesis by (simp add: exit_status_def)
qed

text \<open>
  C2, amended: when the browser is launched and a step before the output write raises,
  the output file is neither opened nor written, the exception is logged and closing the
  browser is the last call on it; when closing the browser does not raise either,
  \<^verbatim>\<open>main\<close> returns and the exit status is 0.
\<close>

theorem failure_writes_nothing:
  assumes "start_playwright w = Done ()" and "launch w = Done ()"
    and "collect_products w (tr0 @ [Start_playwright, Launch]) = Some (Inl e, tr1)"
  shows "\<exists>r. main w tr0 = Some (r, tr1 @ [Log_main e, Close_browser, Stop_playwright])
    \<and> output_writes (tr1 @ [Log_main e, Close_browser, Stop_playwright]) = output_writes tr0
    \<and> (close_browser w = Done () \<longrightarrow> r = Inr () \<and> exit_status r = 0)"
proof -
  have m: "\<exists>r. main w tr0 = Some (r, tr1 @ [Log_main e, Close_browser, Stop_playwright])
             \<and> (close_browser w = Done () \<longrightarrow> r = Inr () \<and> exit_status r = 0)"
    using assms
    by (cases "close_browser w") (simp_all add: main_def await_def exit_status_def)
  obtain acts where a: "tr1 = (tr0 @ [Start_playwright, Launch]) @ acts"
    "list_all browse_action acts"
    using collect_products_emits [OF assms(3)] by blast
  have "output_writes tr1 = output_writes tr0"
    using writes_browse [OF a(2), of "tr0 @ [Start_playwright, Launch]"] a(1)
    by (simp add: output_writes_def)
  then have "output_writes (tr1 @ [Log_main e, Close_browser, Stop_playwright]) = output_writes tr0"
    by (simp add: output_writes_def)
  then show ?thesis using m by blast
qed

lemma collect_products_broken_summary:
  "collect_products broken_summary_world ([] @ [Start_playwright, Launch]) =
     Some (Inl (RuntimeError_wrapping Extraction IndexError),
       [Start_playwright, Launch, New_context, Session_file_exists, New_page,
        Wait_load_state, Goto, Sign_in_visible, Fill_email ''user'',
        Fill_password ''secret'', Click_submit, Wait_sign_out, Nav_wait 0,
        Nav_click 0, Nav_click 1, Nav_click 2, Nav_click 3, Nav_click 4,
        Nav_wait 1, Wait_inventory, Read_summary])"
  by code_simp

theorem failure_writes_nothing_witness:
  "start_playwright broken_summary_world = Done () \<and> launch broken_summary_world = Done ()
   \<and> close_browser broken_summary_world = Done ()
   \<and> main broken_summary_world [] =
       Some (Inr (),
         [Start_playwright, Launch, New_context, Session_file_exists, New_page,
          Wait_load_state, Goto, Sign_in_visible, Fill_email ''user'',
          Fill_password ''secret'', Click_submit, Wait_sign_out, Nav_wait 0,
          Nav_click 0, Nav_click 1, Nav_click 2, Nav_click 3, Nav_click 4,
          Nav_wait 1, Wait_inventory, Read_summary,
          Log_main (RuntimeError_wrapping Extraction IndexError), Close_browser,
          Stop_playwright])
   \<and> output_writes
        [Start_playwright, Launch, New_context, Session_file_exists, New_page,
          Wait_load_state, Goto, Sign_in_visible, Fill_email ''user'',
          Fill_password ''secret'', Click_submit, Wait_sign_out, Nav_wait 0,
          Nav_click 0, Nav_click 1, Nav_click 2, Nav_click 3, Nav_click 4,
          Nav_wait 1, Wait_inventory, Read_summary,
          Log_main (RuntimeError_wrapping Extraction IndexError), Close_browser,
          Stop_playwright] = output_writes []
   \<and> exit_status (Inr ()) = 0"
proof -
  have s: "start_playwright broken_summary_world = Done ()"
    and l: "launch broken_summary_world = Done ()"
    and c: "close_browser broken_summary_world = Done ()"
    by (simp_all add: broken_summary_world_def base_world_def)
  from failure_writes_nothing [OF s l collect_products_broken_summary] s l c
  show ?thesis by auto
qed

section \<open>The session round trip\<close>

lemma save_then_load:
  assumes "storage_state env = Done cs" and "eval_session_storage env = Done text"
    and "open_session_file env = Done ()" and "dump_session env = Done ()"
    and "add_cookies env' = Done ()" and "add_init_script env' = Done ()"
  shows "\<exists>file. fst (save_session env old tr) = Inr file
           \<and> fst (load_session env' file \<lparr>cookie_jar = [], init_scripts = []\<rparr> tr') =
               Inr \<lparr>cookie_jar = cs, init_scripts = [text]\<rparr>"
  using assms by (simp add: save_session_def load_session_def)

lemma js_literal_plain:
  "list_all plain_char s \<Longrightarrow> js_literal acc s = Value (rev acc @ s)"
proof (induction acc s rule: js_literal.induct)
  case (1 acc)
  show ?case by simp
next
  case (2 acc c)
  then show ?case by (simp add: plain_char_def)
next
  case (3 acc c d cs)
  then show ?case by (simp add: plain_char_def)
qed

lemma plain_storage_replayed:
  "list_all plain_char text \<Longrightarrow>
     run_init_script ''hiring.idenhq.com'' text = json_parse_entries text"
  by (simp add: run_init_script_def js_literal_plain)

lemma user_storage_captured:
  "json_parse_entries user_storage_text =
     Value [(''user'', ''{'' @ [dquote] @ ''id'' @ [dquote] @ '':1}'')]"
  by code_simp

lemma user_storage_script: "run_init_script ''hiring.idenhq.com'' user_storage_text = Throws"
  by code_simp

text \<open>
  C8: a snapshot with one cookie and the session storage entry \<^verbatim>\<open>user\<close> with value
  \<^verbatim>\<open>{"id":1}\<close> is saved and loaded.  The cookie is restored.  The storage text is
  copied between the quotes of the init script, where the string literal drops the
  backslashes; \<^verbatim>\<open>JSON.parse\<close> then throws and no entry is restored.
\<close>

theorem session_storage_not_restored:
  "fst (save_session user_session_env No_file []) =
     Inr (Document (Some [login_cookie]) (Some user_storage_text))
   \<and> fst (load_session user_session_env (Document (Some [login_cookie]) (Some user_storage_text))
            \<lparr>cookie_jar = [], init_scripts = []\<rparr> []) =
       Inr \<lparr>cookie_jar = [login_cookie], init_scripts = [user_storage_text]\<rparr>
   \<and> json_parse_entries user_storage_text =
       Value [(''user'', ''{'' @ [dquote] @ ''id'' @ [dquote] @ '':1}'')]
   \<and> run_init_script ''hiring.idenhq.com'' user_storage_text = Throws"
proof -
  have "fst (save_session user_session_env No_file []) =
     Inr (Document (Some [login_cookie]) (Some user_storage_text))"
    by (simp add: save_session_def user_session_env_def)
  moreover have "fst (load_session user_session_env
            (Document (Some [login_cookie]) (Some user_storage_text))
            \<lparr>cookie_jar = [], init_scripts = []\<rparr> []) =
       Inr \<lparr>cookie_jar = [login_cookie], init_scripts = [user_storage_text]\<rparr>"
    by (simp add: load_session_def user_session_env_def)
  ultimately show ?thesis
    using user_storage_captured user_storage_script by simp
qed

end
